theory Spec2Isabelle
  imports Complex_Main
begin

section \<open>Errors\<close>

text \<open>
  Every exception the modelled code can raise is a value. \<open>RuntimeError\<close>,
  \<open>ValueError\<close> and \<open>NotImplementedError\<close> carry the message of the
  \<^verbatim>\<open>raise\<close> statement; \<open>KeyError\<close> is pandas' answer to a row label that is
  not in the index; \<open>TypeError\<close> is Python's answer to arithmetic on \<^verbatim>\<open>None\<close>;
  \<open>ConfigAttributeError\<close> names the absent configuration key that was read.
\<close>

datatype error =
    RuntimeError string
  | ValueError string
  | NotImplementedError string
  | KeyError
  | TypeError
  | ConfigAttributeError string

section \<open>The MVTec index: \<^verbatim>\<open>anomalib/data/mvtec.py\<close>\<close>

subsection \<open>Data\<close>

text \<open>
  The directory scan \<^verbatim>\<open>path.glob("**/*.png")\<close> is an input of the model: one entry
  per file found, holding \<^verbatim>\<open>filename.parts[-3:]\<close>, the last three components
  of the file's path (split directory, label directory, file name), in the
  order of the scan.
\<close>

type_synonym scan_entry = "string \<times> string \<times> string"

text \<open>
  A row of the samples table. The columns \<^verbatim>\<open>path\<close>, \<^verbatim>\<open>split\<close>, \<^verbatim>\<open>label\<close>,
  \<^verbatim>\<open>image_path\<close> and \<^verbatim>\<open>mask_path\<close> exist from line 142 on; \<^verbatim>\<open>label_index\<close>
  is added by lines 154 to 156.
\<close>

record sample_row =
  path :: string
  split :: string
  label :: string
  image_path :: string
  mask_path :: string

record sample = sample_row +
  label_index :: int

text \<open>
  A pandas DataFrame is a list of rows, each with its index label. Filtering
  keeps the labels; \<^verbatim>\<open>reset_index(drop=True)\<close> renumbers them from 0.
\<close>

type_synonym 'r frame = "(nat \<times> 'r) list"

definition DataFrame :: "'r list \<Rightarrow> 'r frame" where
  "DataFrame rows = zip [0..<length rows] rows"

definition reset_index :: "'r frame \<Rightarrow> 'r frame" where
  "reset_index samples = DataFrame (map snd samples)"

text \<open>
  Python's module-level random number generator is global state of type \<open>'g\<close>.
  Its two operations used here belong to the standard library, not to this
  repository, and are parameters of the model: \<^verbatim>\<open>random.seed(seed)\<close> replaces
  the state by one that depends on the seed only, \<^verbatim>\<open>random.sample\<close> reads the
  state, the population and \<open>k\<close>, and returns its selection and the next state.
\<close>

record 'g rng =
  random_seed :: "int \<Rightarrow> 'g"
  random_sample :: "'g \<Rightarrow> nat list \<Rightarrow> nat \<Rightarrow> nat list \<times> 'g"


text \<open>
  A generator that satisfies the promise, for running the model on concrete
  inputs: its state counts the draws and its sample is the first \<open>k\<close> elements.
\<close>

definition prefix_rng :: "int rng" where
  "prefix_rng = \<lparr> random_seed = (\<lambda>seed. seed),
                  random_sample = (\<lambda>g population k. (take k population, g + 1)) \<rparr>"

subsection \<open>Python and pandas primitives\<close>

text \<open>
  \<^verbatim>\<open>int(x)\<close> on a float truncates toward zero. The float \<^verbatim>\<open>split_ratio\<close> is a
  rational here and the product is exact; the closed theorems below use
  ratios that a binary float represents exactly.
\<close>

definition py_int :: "rat \<Rightarrow> int" where
  "py_int x = (if 0 \<le> x then \<lfloor>x\<rfloor> else \<lceil>x\<rceil>)"

text \<open>\<^verbatim>\<open>s.rstrip(chars)\<close>: drop every trailing character that occurs in \<open>chars\<close>.\<close>

definition rstrip :: "string \<Rightarrow> string \<Rightarrow> string" where
  "rstrip chars s = rev (dropWhile (\<lambda>c. c \<in> set chars) (rev s))"

text \<open>\<^verbatim>\<open>samples.loc[indices, "split"] = value\<close>: assignment by row label.\<close>

definition loc_set_split :: "nat list \<Rightarrow> string \<Rightarrow> sample_row frame \<Rightarrow> sample_row frame" where
  "loc_set_split indices v samples =
     map (\<lambda>(i, r). if i \<in> set indices then (i, r\<lparr>split := v\<rparr>) else (i, r)) samples"

subsection \<open>\<^verbatim>\<open>split_normal_images_in_train_set\<close> (lines 54 to 78)\<close>

definition normal_train_image_indices :: "sample_row frame \<Rightarrow> nat list" where
  "normal_train_image_indices samples =
     map fst (filter (\<lambda>(i, r). split r = ''train'' \<and> label r = ''good'') samples)"

definition num_normal_valid_images :: "sample_row frame \<Rightarrow> rat \<Rightarrow> int" where
  "num_normal_valid_images samples split_ratio =
     py_int (of_nat (length (normal_train_image_indices samples)) * split_ratio)"

text \<open>
  The state \<open>g\<close> on entry is overwritten by \<^verbatim>\<open>random.seed(seed)\<close> (line 69).
  \<^verbatim>\<open>random.sample\<close> raises \<^verbatim>\<open>ValueError\<close> unless \<open>0 \<le> k \<le> len(population)\<close>.
\<close>

definition split_normal_images_in_train_set ::
  "'g rng \<Rightarrow> 'g \<Rightarrow> sample_row frame \<Rightarrow> rat \<Rightarrow> int \<Rightarrow> 'g \<times> (error + sample_row frame)" where
  "split_normal_images_in_train_set r g samples split_ratio seed =
     (let g1 = random_seed r seed;
          population = normal_train_image_indices samples;
          k = num_normal_valid_images samples split_ratio
      in if k < 0 \<or> int (length population) < k
         then (g1, Inl (ValueError ''Sample larger than population or is negative''))
         else (let (indices_to_split_from_train_set, g2) = random_sample r g1 population (nat k)
               in (g2, Inr (loc_set_split indices_to_split_from_train_set ''test'' samples))))"

subsection \<open>\<^verbatim>\<open>make_mvtec_dataset\<close> (lines 81 to 162)\<close>

text \<open>Lines 128 to 142, for one row: the mask path and the absolute image path.\<close>

definition scan_row :: "string \<Rightarrow> scan_entry \<Rightarrow> sample_row" where
  "scan_row p e =
     (case e of (s, l, f) \<Rightarrow>
        \<lparr> path = p, split = s, label = l,
          image_path = p @ ''/'' @ s @ ''/'' @ l @ ''/'' @ f,
          mask_path = p @ ''/ground_truth/'' @ l @ ''/'' @ rstrip ''.'' (rstrip ''png'' f) @ ''_mask.png'' \<rparr>)"

text \<open>Lines 128 to 142: the table of every scanned file outside \<^verbatim>\<open>ground_truth\<close>.\<close>

definition scan_samples :: "string \<Rightarrow> scan_entry list \<Rightarrow> sample_row frame" where
  "scan_samples p samples_list =
     map (\<lambda>(i, e). (i, scan_row p e))
       (filter (\<lambda>(i, (s, l, f)). s \<noteq> ''ground_truth'') (DataFrame samples_list))"

definition is_normal_test :: "'a sample_row_scheme \<Rightarrow> bool" where
  "is_normal_test r \<longleftrightarrow> split r = ''test'' \<and> label r = ''good''"

text \<open>Line 151: good test images have no mask.\<close>

definition clear_mask :: "sample_row \<Rightarrow> sample_row" where
  "clear_mask r = (if is_normal_test r then r\<lparr>mask_path := ''''\<rparr> else r)"

text \<open>Lines 154 to 156: 0 for the normal label, 1 for any other.\<close>

definition add_label_index :: "sample_row \<Rightarrow> sample" where
  "add_label_index r = sample_row.extend r \<lparr> label_index = (if label r = ''good'' then 0 else 1) \<rparr>"

text \<open>
  Lines 124 to 156: the whole table, before the requested split is selected.
  The reassignment runs only when no scanned row is a normal test row.
\<close>

definition make_mvtec_dataset_full ::
  "'g rng \<Rightarrow> 'g \<Rightarrow> string \<Rightarrow> rat \<Rightarrow> int \<Rightarrow> scan_entry list \<Rightarrow> 'g \<times> (error + sample frame)" where
  "make_mvtec_dataset_full r g p split_ratio seed samples_list =
     (if length samples_list = 0 then (g, Inl (RuntimeError (''Found 0 images in '' @ p)))
      else
        (let samples = scan_samples p samples_list;
             (g', res) =
               (if length (filter (\<lambda>(i, row). is_normal_test row) samples) = 0
                then split_normal_images_in_train_set r g samples split_ratio seed
                else (g, Inr samples))
         in (g', case res of
                   Inl e \<Rightarrow> Inl e
                 | Inr samples' \<Rightarrow>
                     Inr (map (\<lambda>(i, row). (i, add_label_index (clear_mask row))) samples'))))"

text \<open>Lines 158 to 162: the rows of the requested split, renumbered.\<close>

definition make_mvtec_dataset ::
  "'g rng \<Rightarrow> 'g \<Rightarrow> string \<Rightarrow> string \<Rightarrow> rat \<Rightarrow> int \<Rightarrow> scan_entry list \<Rightarrow> 'g \<times> (error + sample frame)" where
  "make_mvtec_dataset r g p sp split_ratio seed samples_list =
     (case make_mvtec_dataset_full r g p split_ratio seed samples_list of
        (g', Inl e) \<Rightarrow> (g', Inl e)
      | (g', Inr samples) \<Rightarrow>
          (g', Inr (reset_index (filter (\<lambda>(i, row). split row = sp) samples))))"

subsection \<open>\<^verbatim>\<open>_MvtecDataset.__getitem__\<close> (lines 265 to 306)\<close>

text \<open>
  The attributes of a dataset object that the accessor reads. \<^verbatim>\<open>__init__\<close>
  sets \<^verbatim>\<open>self.split\<close> to \<^verbatim>\<open>"train"\<close> or \<^verbatim>\<open>"test"\<close>, but both \<^verbatim>\<open>self.split\<close>
  and \<^verbatim>\<open>self.task\<close> are plain attributes that the docstring of the class
  reassigns, so they are strings here.
\<close>

record mvtec_dataset =
  self_split :: string
  self_task :: string
  self_samples :: "sample frame"

text \<open>
  Image decoding and preprocessing belong to other modules and libraries and
  are parameters: \<^verbatim>\<open>read_image\<close>, the preprocessor called on an image alone and
  on an image with a mask, \<^verbatim>\<open>np.zeros(shape=image.shape[:2])\<close>, \<^verbatim>\<open>cv2.imread\<close>
  (which returns \<^verbatim>\<open>None\<close> for a file it cannot read) and the division by 255.
  One type \<open>'t\<close> stands for every array and tensor.
\<close>

record 't image_io =
  read_image :: "string \<Rightarrow> 't"
  pre_process_image :: "'t \<Rightarrow> 't"
  pre_process_image_mask :: "'t \<Rightarrow> 't \<Rightarrow> 't \<times> 't"
  np_zeros_like :: "'t \<Rightarrow> 't"
  cv2_imread :: "string \<Rightarrow> 't option"
  div_255 :: "'t \<Rightarrow> 't"

datatype 't item_value = Str string | Label int | Tensor 't

text \<open>\<^verbatim>\<open>series[index]\<close> on a column: lookup by row label, \<^verbatim>\<open>KeyError\<close> when absent.\<close>

definition series_get :: "'r frame \<Rightarrow> int \<Rightarrow> error + 'r" where
  "series_get samples index =
     (if index < 0 then Inl KeyError
      else case map_of samples (nat index) of None \<Rightarrow> Inl KeyError | Some row \<Rightarrow> Inr row)"

text \<open>
  The returned \<^verbatim>\<open>item\<close> is a Python dictionary: a list of key and value pairs in
  insertion order, where assigning to a key that is present replaces its
  value in place.
\<close>

type_synonym 'v dict = "(string \<times> 'v) list"

fun dict_set :: "string \<Rightarrow> 'v \<Rightarrow> 'v dict \<Rightarrow> 'v dict" where
  "dict_set k v [] = [(k, v)]"
| "dict_set k v ((k', v') # item) =
     (if k = k' then (k, v) # item else (k', v') # dict_set k v item)"

definition getitem ::
  "'t image_io \<Rightarrow> mvtec_dataset \<Rightarrow> int \<Rightarrow> error + 't item_value dict" where
  "getitem io self index =
     (case series_get (self_samples self) index of
        Inl e \<Rightarrow> Inl e
      | Inr row \<Rightarrow>
         (let item = [];
              img = read_image io (image_path row);
              item = (if self_split self = ''train'' \<or> self_task self = ''classification''
                      then [(''image'', Tensor (pre_process_image io img))]
                      else item)
          in if self_split self = ''test''
             then (let item = dict_set ''image_path'' (Str (image_path row)) item;
                       item = dict_set ''label'' (Label (label_index row)) item
                   in if self_task self = ''segmentation''
                      then (case (if label_index row = 0 then Some (np_zeros_like io img)
                                  else map_option (div_255 io) (cv2_imread io (mask_path row))) of
                              None \<Rightarrow> Inl TypeError
                            | Some mask_array \<Rightarrow>
                               (let (pre_image, pre_mask) = pre_process_image_mask io img mask_array;
                                    item = dict_set ''mask_path'' (Str (mask_path row)) item;
                                    item = dict_set ''image'' (Tensor pre_image) item;
                                    item = dict_set ''mask'' (Tensor pre_mask) item
                                in Inr item))
                      else Inr item)
             else Inr item))"

section \<open>Callback assembly: \<^verbatim>\<open>anomalib/utils/callbacks/__init__.py\<close>\<close>

subsection \<open>The configuration tree\<close>

text \<open>
  The configuration is a nested mapping. A key whose presence the code tests
  (\<^verbatim>\<open>"k" in section.keys()\<close>), or that the code itself may leave out when it
  creates a section, is an \<open>option\<close> field: \<open>None\<close> is the absent key. Every other
  key is read without a test and is a plain field. Reading an absent key by
  attribute raises; the presence tests of lines 77 to 84, which would be
  redundant otherwise, rely on that. For \<^verbatim>\<open>log_graph\<close> and \<^verbatim>\<open>image_save_path\<close>,
  which the code compares with \<^verbatim>\<open>None\<close>, \<open>None\<close> is the null value.
\<close>

record early_stopping_config =
  early_stopping_metric :: string
  early_stopping_mode :: string

record model_config =
  model_name :: string
  model_early_stopping :: "early_stopping_config option"
  model_weight_file :: "string option"
  model_normalization_method :: "string option"
  model_input_size :: "int list"

record project_config =
  project_path :: string
  project_log_images_to :: "string list option"

record threshold_config =
  threshold_adaptive :: bool
  threshold_image_default :: "rat option"
  threshold_pixel_default :: "rat option"

record metrics_config =
  metrics_image :: "string list option"
  metrics_pixel :: "string list option"
  metrics_threshold :: threshold_config

record nncf_config =
  nncf_apply :: bool
  nncf_input_info :: "int list"

record openvino_config =
  openvino_apply :: bool

record optimization_config =
  optimization_nncf :: "nncf_config option"
  optimization_openvino :: "openvino_config option"

record logging_config =
  logging_log_graph :: "bool option"
  logging_log_images_to :: "string list option"

record visualization_config =
  visualization_log_images :: bool
  visualization_save_images :: bool
  visualization_show_image :: "bool option"
  visualization_show_images :: "bool option"
  visualization_mode :: "string option"
  visualization_image_save_path :: "string option"

record dataset_config =
  dataset_task :: string

record config =
  project :: project_config
  model :: model_config
  metrics :: metrics_config
  optimization :: "optimization_config option"
  logging :: logging_config
  visualization :: "visualization_config option"
  dataset :: dataset_config

text \<open>The hooks, each with the arguments of its constructor call.\<close>

datatype callback =
    ModelCheckpoint string string "string option" string bool
  | TimerCallback
  | MetricsConfigurationCallback bool "rat option" "rat option" "string list option" "string list option"
  | LoadModelCallback string
  | CdfNormalizationCallback
  | MinMaxNormalizationCallback
  | VisualizerCallback string string string bool bool bool bool
  | NNCFCallback nncf_config string
  | OpenVINOCallback "int list" string string
  | GraphLogger

subsection \<open>Primitives\<close>

text \<open>Attribute access on a key that may be absent.\<close>

definition attr :: "string \<Rightarrow> 'a option \<Rightarrow> error + 'a" where
  "attr key v = (case v of None \<Rightarrow> Inl (ConfigAttributeError key) | Some x \<Rightarrow> Inr x)"

text \<open>Sequencing: the first exception ends the computation.\<close>

definition bind_error :: "error + 'a \<Rightarrow> ('a \<Rightarrow> error + 'b) \<Rightarrow> error + 'b" where
  "bind_error m f = (case m of Inl e \<Rightarrow> Inl e | Inr x \<Rightarrow> f x)"

text \<open>\<^verbatim>\<open>os.path.join(a, b)\<close> on POSIX.\<close>

definition os_path_join :: "string \<Rightarrow> string \<Rightarrow> string" where
  "os_path_join a b =
     (if b \<noteq> [] \<and> hd b = CHR ''/'' then b
      else if a = [] \<or> last a = CHR ''/'' then a @ b
      else a @ ''/'' @ b)"

text \<open>\<^verbatim>\<open>"k" in section.keys() and len(section.k) > 0\<close>.\<close>

definition present_nonempty :: "string list option \<Rightarrow> bool" where
  "present_nonempty v = (case v of None \<Rightarrow> False | Some l \<Rightarrow> length l > 0)"

subsection \<open>\<^verbatim>\<open>get_callbacks\<close>, lines 98 to 109: score normalization\<close>

definition normalization_callbacks :: "config \<Rightarrow> callback list \<Rightarrow> error + callback list" where
  "normalization_callbacks c callbacks =
     (case model_normalization_method (model c) of
        None \<Rightarrow> Inr callbacks
      | Some method \<Rightarrow>
          if method = ''none'' then Inr callbacks
          else if method = ''cdf'' then
            (if model_name (model c) \<in> set [''padim'', ''stfpm''] then
               bind_error (attr ''optimization'' (optimization c)) (\<lambda>opt.
                 if (case optimization_nncf opt of None \<Rightarrow> False | Some n \<Rightarrow> nncf_apply n)
                 then Inl (NotImplementedError
                        ''CDF Score Normalization is currently not compatible with NNCF.'')
                 else Inr (callbacks @ [CdfNormalizationCallback]))
             else Inl (NotImplementedError
                    ''Score Normalization is currently supported for PADIM and STFPM only.''))
          else if method = ''min_max'' then Inr (callbacks @ [MinMaxNormalizationCallback])
          else Inl (ValueError (''Normalization method not recognized: '' @ method)))"

subsection \<open>\<^verbatim>\<open>add_visualizer_callback\<close> (lines 146 to 187)\<close>

text \<open>The condition of lines 155 to 160.\<close>

definition log_images_to_given :: "config \<Rightarrow> bool" where
  "log_images_to_given c \<longleftrightarrow>
     present_nonempty (project_log_images_to (project c))
     \<or> present_nonempty (logging_log_images_to (logging c))"

text \<open>Line 166: the section created when there is none.\<close>

definition default_visualization :: visualization_config where
  "default_visualization =
     \<lparr> visualization_log_images = False, visualization_save_images = False,
       visualization_show_image = Some False, visualization_show_images = None,
       visualization_mode = None, visualization_image_save_path = None \<rparr>"

definition set_save_images :: "config \<Rightarrow> config" where
  "set_save_images c =
     c\<lparr>visualization := map_option (\<lambda>v. v\<lparr>visualization_save_images := True\<rparr>) (visualization c)\<rparr>"

definition set_log_images :: "config \<Rightarrow> config" where
  "set_log_images c =
     c\<lparr>visualization := map_option (\<lambda>v. v\<lparr>visualization_log_images := True\<rparr>) (visualization c)\<rparr>"

text \<open>
  Lines 165 to 170. The configuration is mutated in place, so the model
  returns it also when an exception ends the migration.
\<close>

definition migrate_log_images_to :: "config \<Rightarrow> config \<times> (error + unit)" where
  "migrate_log_images_to c =
     (let c1 = (if visualization c = None then c\<lparr>visualization := Some default_visualization\<rparr> else c)
      in case project_log_images_to (project c1) of
           None \<Rightarrow> (c1, Inl (ConfigAttributeError ''log_images_to''))
         | Some targets \<Rightarrow>
            (let c2 = (if ''local'' \<in> set targets then set_save_images c1 else c1);
                 c3 = (if ''local'' \<notin> set targets \<or> length targets > 1 then set_log_images c2 else c2)
             in (c3, Inr ())))"

text \<open>Lines 171 to 187, on the configuration as the migration left it.\<close>

definition visualizer_callbacks :: "config \<Rightarrow> callback list \<Rightarrow> error + callback list" where
  "visualizer_callbacks c callbacks =
     bind_error (attr ''visualization'' (visualization c)) (\<lambda>v.
       bind_error
         (if visualization_log_images v \<or> visualization_save_images v then Inr True
          else attr ''show_images'' (visualization_show_images v)) (\<lambda>enabled.
         if enabled then
           (let image_save_path =
                  (case visualization_image_save_path v of
                     None \<Rightarrow> project_path (project c) @ ''/images''
                   | Some s \<Rightarrow> if s \<noteq> [] then s else project_path (project c) @ ''/images'')
            in bind_error (attr ''mode'' (visualization_mode v)) (\<lambda>mode.
                 bind_error (attr ''normalization_method'' (model_normalization_method (model c)))
                   (\<lambda>method.
                   bind_error (attr ''show_images'' (visualization_show_images v)) (\<lambda>show_images.
                     Inr (callbacks @
                       [VisualizerCallback (dataset_task (dataset c)) mode image_save_path
                          (method \<noteq> ''none'') show_images
                          (visualization_log_images v) (visualization_save_images v)])))))
         else Inr callbacks))"

definition add_visualizer_callback :: "callback list \<Rightarrow> config \<Rightarrow> config \<times> (error + callback list)" where
  "add_visualizer_callback callbacks c =
     (if log_images_to_given c
      then (case migrate_log_images_to c of
              (c', Inl e) \<Rightarrow> (c', Inl e)
            | (c', Inr u) \<Rightarrow> (c', visualizer_callbacks c' callbacks))
      else (c, visualizer_callbacks c callbacks))"

subsection \<open>\<^verbatim>\<open>get_callbacks\<close>, lines 113 to 141: optimization and graph logging\<close>

definition optimization_callbacks :: "config \<Rightarrow> callback list \<Rightarrow> callback list" where
  "optimization_callbacks c callbacks =
     (case optimization c of
        None \<Rightarrow> callbacks
      | Some opt \<Rightarrow>
         (let callbacks =
                (case optimization_nncf opt of
                   None \<Rightarrow> callbacks
                 | Some n \<Rightarrow>
                     if nncf_apply n
                     then callbacks @ [NNCFCallback n (os_path_join (project_path (project c)) ''compressed'')]
                     else callbacks)
          in case optimization_openvino opt of
               None \<Rightarrow> callbacks
             | Some ov \<Rightarrow>
                 if openvino_apply ov
                 then callbacks @ [OpenVINOCallback (model_input_size (model c))
                                     (os_path_join (project_path (project c)) ''openvino'')
                                     ''openvino_model'']
                 else callbacks))"

definition graph_callbacks :: "config \<Rightarrow> callback list \<Rightarrow> callback list" where
  "graph_callbacks c callbacks =
     (if logging_log_graph (logging c) \<notin> set [None, Some False]
      then callbacks @ [GraphLogger] else callbacks)"

subsection \<open>\<^verbatim>\<open>get_callbacks\<close> (lines 50 to 143)\<close>

text \<open>Lines 61 to 96: the hooks that precede score normalization.\<close>

definition base_callbacks :: "config \<Rightarrow> callback list" where
  "base_callbacks c =
     (let callbacks = [];
          monitor_metric = map_option early_stopping_metric (model_early_stopping (model c));
          monitor_mode = (case model_early_stopping (model c) of
                            None \<Rightarrow> ''max'' | Some es \<Rightarrow> early_stopping_mode es);
          checkpoint = ModelCheckpoint (os_path_join (project_path (project c)) ''weights'')
                         ''model'' monitor_metric monitor_mode False;
          callbacks = callbacks @ [checkpoint, TimerCallback];
          metrics_callback =
            MetricsConfigurationCallback
              (threshold_adaptive (metrics_threshold (metrics c)))
              (threshold_image_default (metrics_threshold (metrics c)))
              (threshold_pixel_default (metrics_threshold (metrics c)))
              (metrics_image (metrics c))
              (metrics_pixel (metrics c));
          callbacks = callbacks @ [metrics_callback]
      in case model_weight_file (model c) of
           None \<Rightarrow> callbacks
         | Some weight_file \<Rightarrow>
             callbacks @ [LoadModelCallback (os_path_join (project_path (project c)) weight_file)])"

text \<open>
  The whole assembly. The result pairs the configuration as the call leaves
  it with the list of hooks or the exception.
\<close>

definition get_callbacks :: "config \<Rightarrow> config \<times> (error + callback list)" where
  "get_callbacks c =
     (case normalization_callbacks c (base_callbacks c) of
        Inl e \<Rightarrow> (c, Inl e)
      | Inr callbacks \<Rightarrow>
         (case add_visualizer_callback callbacks c of
            (c', Inl e) \<Rightarrow> (c', Inl e)
          | (c', Inr callbacks') \<Rightarrow>
              (c', Inr (graph_callbacks c' (optimization_callbacks c' callbacks')))))"

section \<open>Measuring scans and tables\<close>

text \<open>
  The vocabulary of the statements about the index: the split and the label
  that a scanned file's path gives it, the number of scanned files of a split
  and label, and the number of rows of a table that satisfy a predicate.
\<close>

definition scanned_split :: "scan_entry \<Rightarrow> string" where
  "scanned_split e = fst e"

definition scanned_label :: "scan_entry \<Rightarrow> string" where
  "scanned_label e = fst (snd e)"






text \<open>
  \<^verbatim>\<open>item.keys()\<close> of what the accessor returns, in insertion order, or the
  exception it raised.
\<close>

definition item_keys :: "error + 'v dict \<Rightarrow> error + string list" where
  "item_keys res = (case res of Inl e \<Rightarrow> Inl e | Inr item \<Rightarrow> Inr (map fst item))"

text \<open>The two score normalization hooks.\<close>

fun is_normalization_hook :: "callback \<Rightarrow> bool" where
  "is_normalization_hook CdfNormalizationCallback = True"
| "is_normalization_hook MinMaxNormalizationCallback = True"
| "is_normalization_hook other = False"

section \<open>Concrete inputs\<close>

text \<open>
  A small category directory: two normal training images, one anomalous test
  image and its ground-truth mask. The scan has no normal test image, so the
  index construction reassigns training rows.
\<close>

definition example_scan :: "scan_entry list" where
  "example_scan =
     [(''train'', ''good'', ''000.png''), (''train'', ''good'', ''001.png''),
      (''test'', ''broken'', ''000.png''), (''ground_truth'', ''broken'', ''000_mask.png'')]"

definition example_moved_row :: sample where
  "example_moved_row =
     \<lparr> path = ''bottle'', split = ''test'', label = ''good'',
       image_path = ''bottle/train/good/000.png'', mask_path = '''', label_index = 0 \<rparr>"

definition example_anomalous_row :: sample where
  "example_anomalous_row =
     \<lparr> path = ''bottle'', split = ''test'', label = ''broken'',
       image_path = ''bottle/test/broken/000.png'',
       mask_path = ''bottle/ground_truth/broken/000_mask.png'', label_index = 1 \<rparr>"

definition example_train_row :: sample where
  "example_train_row =
     \<lparr> path = ''bottle'', split = ''train'', label = ''good'',
       image_path = ''bottle/train/good/001.png'',
       mask_path = ''bottle/ground_truth/good/001_mask.png'', label_index = 0 \<rparr>"

definition example_test_table :: "sample frame" where
  "example_test_table = [(0, example_moved_row), (1, example_anomalous_row)]"

definition example_train_table :: "sample frame" where
  "example_train_table = [(0, example_train_row)]"



text \<open>
  Stand-ins for image decoding and preprocessing, with numbers for arrays:
  reading a file gives the length of its path, and a mask file is readable
  when its path is not empty.
\<close>

definition example_io :: "nat image_io" where
  "example_io =
     \<lparr> read_image = length,
       pre_process_image = (\<lambda>t. t),
       pre_process_image_mask = (\<lambda>t m. (t, m)),
       np_zeros_like = (\<lambda>t. 0),
       cv2_imread = (\<lambda>p. if p = [] then None else Some (length p)),
       div_255 = (\<lambda>t. t div 255) \<rparr>"

definition example_train_dataset :: mvtec_dataset where
  "example_train_dataset =
     \<lparr> self_split = ''train'', self_task = ''segmentation'', self_samples = example_train_table \<rparr>"

definition example_test_dataset :: mvtec_dataset where
  "example_test_dataset =
     \<lparr> self_split = ''test'', self_task = ''segmentation'', self_samples = example_test_table \<rparr>"

definition example_classification_dataset :: mvtec_dataset where
  "example_classification_dataset =
     \<lparr> self_split = ''test'', self_task = ''classification'', self_samples = example_test_table \<rparr>"

text \<open>
  A complete configuration: PaDiM with CDF score normalization, an
  optimization section without NNCF, visualization switched off and no
  deprecated \<^verbatim>\<open>log_images_to\<close> key.
\<close>

definition example_config :: config where
  "example_config =
     \<lparr> project = \<lparr> project_path = ''results'', project_log_images_to = None \<rparr>,
       model = \<lparr> model_name = ''padim'', model_early_stopping = None,
                 model_weight_file = None, model_normalization_method = Some ''cdf'',
                 model_input_size = [256, 256] \<rparr>,
       metrics = \<lparr> metrics_image = Some [''AUROC''], metrics_pixel = None,
                   metrics_threshold = \<lparr> threshold_adaptive = True,
                                         threshold_image_default = None,
                                         threshold_pixel_default = None \<rparr> \<rparr>,
       optimization = Some \<lparr> optimization_nncf = None,
                             optimization_openvino = Some \<lparr> openvino_apply = False \<rparr> \<rparr>,
       logging = \<lparr> logging_log_graph = Some False, logging_log_images_to = None \<rparr>,
       visualization = Some \<lparr> visualization_log_images = False,
                              visualization_save_images = False,
                              visualization_show_image = None,
                              visualization_show_images = Some False,
                              visualization_mode = Some ''full'',
                              visualization_image_save_path = None \<rparr>,
       dataset = \<lparr> dataset_task = ''segmentation'' \<rparr> \<rparr>"

text \<open>The same configuration without the optional \<^verbatim>\<open>optimization\<close> section.\<close>

definition cdf_without_optimization_config :: config where
  "cdf_without_optimization_config = example_config\<lparr>optimization := None\<rparr>"

text \<open>
  An older configuration: no \<^verbatim>\<open>visualization\<close> section, and the deprecated key
  given under \<^verbatim>\<open>logging\<close> only.
\<close>

definition logging_log_images_to_config :: config where
  "logging_log_images_to_config =
     example_config
       \<lparr> logging := \<lparr> logging_log_graph = Some False, logging_log_images_to = Some [''local''] \<rparr>,
         visualization := None \<rparr>"

text \<open>The same older configuration with the deprecated key under \<^verbatim>\<open>project\<close>.\<close>

definition project_log_images_to_config :: config where
  "project_log_images_to_config =
     example_config
       \<lparr> project := \<lparr> project_path = ''results'', project_log_images_to = Some [''local''] \<rparr>,
         visualization := None \<rparr>"



section \<open>Properties of the MVTec index\<close>

subsection \<open>Running the index construction on the example\<close>

lemmas mvtec_defs =
  make_mvtec_dataset_def make_mvtec_dataset_full_def scan_samples_def DataFrame_def
  reset_index_def scan_row_def rstrip_def is_normal_test_def clear_mask_def add_label_index_def
  split_normal_images_in_train_set_def normal_train_image_indices_def
  num_normal_valid_images_def py_int_def prefix_rng_def loc_set_split_def
  sample_row.extend_def upt_rec Let_def


lemma example_test_run:
  "make_mvtec_dataset prefix_rng 7 ''bottle'' ''test'' (1 / 2) 0 example_scan
   = (1, Inr example_test_table)"
  by (simp add: mvtec_defs example_scan_def example_test_table_def example_moved_row_def
                example_anomalous_row_def)

lemma example_train_run:
  "make_mvtec_dataset prefix_rng 7 ''bottle'' ''train'' (1 / 2) 0 example_scan
   = (1, Inr example_train_table)"
  by (simp add: mvtec_defs example_scan_def example_train_table_def example_train_row_def)

subsection \<open>The shape of the rows\<close>

lemma DataFrame_row: "(i, row) \<in> set (DataFrame rows) \<Longrightarrow> row \<in> set rows"
  by (auto simp: DataFrame_def dest: set_zip_rightD)

lemma reset_index_row:
  "(i, row) \<in> set (reset_index samples) \<Longrightarrow> \<exists>j. (j, row) \<in> set samples"
proof -
  assume "(i, row) \<in> set (reset_index samples)"
  then have "row \<in> set (map snd samples)"
    unfolding reset_index_def by (rule DataFrame_row)
  then show ?thesis by force
qed

lemma selected_row:
  assumes "snd (make_mvtec_dataset r g p sp split_ratio seed samples_list) = Inr samples"
      and "(i, row) \<in> set samples"
  shows "split row = sp \<and>
         (\<exists>full j. snd (make_mvtec_dataset_full r g p split_ratio seed samples_list) = Inr full
                  \<and> (j, row) \<in> set full)"
  using assms
  by (auto simp: make_mvtec_dataset_def split: prod.splits sum.splits dest!: reset_index_row)

lemma label_index_add:
  "label_index (add_label_index row) = (if label row = ''good'' then 0 else 1)"
  by (simp add: add_label_index_def sample_row.extend_def)

lemma label_add [simp]: "label (add_label_index row) = label row"
  by (simp add: add_label_index_def sample_row.extend_def)

lemma split_add [simp]: "split (add_label_index row) = split row"
  by (simp add: add_label_index_def sample_row.extend_def)

lemma mask_path_add [simp]: "mask_path (add_label_index row) = mask_path row"
  by (simp add: add_label_index_def sample_row.extend_def)

lemma label_clear [simp]: "label (clear_mask row) = label row"
  by (simp add: clear_mask_def)

lemma split_clear [simp]: "split (clear_mask row) = split row"
  by (simp add: clear_mask_def)

lemma scan_row_mask: "mask_path (scan_row p e) \<noteq> []"
  by (cases e) (simp add: scan_row_def)

lemma scan_samples_mask:
  "(i, row) \<in> set (scan_samples p samples_list) \<Longrightarrow> mask_path row \<noteq> []"
  by (auto simp: scan_samples_def scan_row_mask)

lemma loc_set_split_mask:
  "(i, row) \<in> set (loc_set_split indices v samples) \<Longrightarrow>
   \<exists>row'. (i, row') \<in> set samples \<and> mask_path row = mask_path row'"
  by (auto simp: loc_set_split_def split: if_splits)

lemma split_normal_mask:
  assumes "snd (split_normal_images_in_train_set r g samples split_ratio seed) = Inr samples'"
      and "(i, row) \<in> set samples'"
  shows "\<exists>row'. (i, row') \<in> set samples \<and> mask_path row = mask_path row'"
  using assms
  by (auto simp: split_normal_images_in_train_set_def Let_def split: if_splits prod.splits
           dest: loc_set_split_mask)

text \<open>
  Every row of the whole table is a scanned row, possibly reassigned, whose
  mask path was cleared by line 151 or kept, and that had a mask path of at
  least the fixed text \<^verbatim>\<open>/ground_truth/\<close> before.
\<close>

lemma full_row_mask:
  assumes "snd (make_mvtec_dataset_full r g p split_ratio seed samples_list) = Inr samples"
      and "(i, row) \<in> set samples"
  shows "\<exists>row'. row = add_label_index (clear_mask row') \<and> mask_path row' \<noteq> []"
proof (cases "length (filter (\<lambda>(i, row). is_normal_test row) (scan_samples p samples_list)) = 0")
  case True
  with assms obtain samples' where
    s: "snd (split_normal_images_in_train_set r g (scan_samples p samples_list) split_ratio seed)
        = Inr samples'"
    and m: "samples = map (\<lambda>(i, row). (i, add_label_index (clear_mask row))) samples'"
    by (auto simp: make_mvtec_dataset_full_def Let_def split: if_splits prod.splits sum.splits)
  from m assms(2) obtain row' where
    r: "(i, row') \<in> set samples'" "row = add_label_index (clear_mask row')"
    by auto
  from split_normal_mask [OF s r(1)] scan_samples_mask have "mask_path row' \<noteq> []" by metis
  with r show ?thesis by blast
next
  case False
  with assms have
    "samples = map (\<lambda>(i, row). (i, add_label_index (clear_mask row))) (scan_samples p samples_list)"
    by (auto simp: make_mvtec_dataset_full_def Let_def split: if_splits prod.splits sum.splits)
  with assms(2) obtain row' where
    r: "(i, row') \<in> set (scan_samples p samples_list)" "row = add_label_index (clear_mask row')"
    by auto
  with scan_samples_mask show ?thesis by blast
qed

subsection \<open>Label index\<close>

text \<open>
  C4. In every row of a table that \<^verbatim>\<open>make_mvtec_dataset\<close> returns, for any
  generator, path, requested split, split ratio, seed and scan, \<^verbatim>\<open>label_index\<close>
  is 0 exactly when \<^verbatim>\<open>label\<close> is \<^verbatim>\<open>"good"\<close>, and it is 0 or 1.
\<close>

theorem label_index_zero_iff_good:
  assumes "snd (make_mvtec_dataset r g p sp split_ratio seed samples_list) = Inr samples"
      and "(i, row) \<in> set samples"
  shows "(label_index row = 0 \<longleftrightarrow> label row = ''good'') \<and> label_index row \<in> {0, 1}"
proof -
  from selected_row [OF assms] obtain full j where
    "snd (make_mvtec_dataset_full r g p split_ratio seed samples_list) = Inr full"
    "(j, row) \<in> set full" by blast
  from full_row_mask [OF this] obtain row' where "row = add_label_index (clear_mask row')"
    by blast
  then show ?thesis by (simp add: label_index_add)
qed

theorem label_index_zero_iff_good_witness:
  "snd (make_mvtec_dataset prefix_rng 7 ''bottle'' ''test'' (1 / 2) 0 example_scan)
     = Inr example_test_table
   \<and> (1, example_anomalous_row) \<in> set example_test_table
   \<and> (label_index example_anomalous_row = 0 \<longleftrightarrow> label example_anomalous_row = ''good'')
   \<and> label_index example_anomalous_row \<in> {0, 1}"
proof -
  have run: "snd (make_mvtec_dataset prefix_rng 7 ''bottle'' ''test'' (1 / 2) 0 example_scan)
             = Inr example_test_table"
    by (simp add: example_test_run)
  have mem: "(1, example_anomalous_row) \<in> set example_test_table"
    by (simp add: example_test_table_def)
  from label_index_zero_iff_good [OF run mem] run mem show ?thesis by blast
qed

subsection \<open>Mask path\<close>

text \<open>
  C5. In every row of a table that \<^verbatim>\<open>make_mvtec_dataset\<close> returns, \<^verbatim>\<open>mask_path\<close>
  is the empty string exactly when \<^verbatim>\<open>label_index\<close> is 0 and \<^verbatim>\<open>split\<close> is
  \<^verbatim>\<open>"test"\<close>. So it is empty in every normal test row, the rows reassigned from
  the training split included, and not empty in every anomalous test row.
\<close>

theorem mask_path_empty_iff_normal_test:
  assumes "snd (make_mvtec_dataset r g p sp split_ratio seed samples_list) = Inr samples"
      and "(i, row) \<in> set samples"
  shows "mask_path row = '''' \<longleftrightarrow> label_index row = 0 \<and> split row = ''test''"
proof -
  from selected_row [OF assms] obtain full j where
    "snd (make_mvtec_dataset_full r g p split_ratio seed samples_list) = Inr full"
    "(j, row) \<in> set full" by blast
  from full_row_mask [OF this] obtain row' where
    "row = add_label_index (clear_mask row')" "mask_path row' \<noteq> []" by blast
  then show ?thesis by (auto simp: label_index_add clear_mask_def is_normal_test_def)
qed

theorem mask_path_empty_iff_normal_test_witness:
  "snd (make_mvtec_dataset prefix_rng 7 ''bottle'' ''test'' (1 / 2) 0 example_scan)
     = Inr example_test_table
   \<and> (0, example_moved_row) \<in> set example_test_table
   \<and> (mask_path example_moved_row = ''''
        \<longleftrightarrow> label_index example_moved_row = 0 \<and> split example_moved_row = ''test'')
   \<and> mask_path example_moved_row = ''''"
proof -
  have run: "snd (make_mvtec_dataset prefix_rng 7 ''bottle'' ''test'' (1 / 2) 0 example_scan)
             = Inr example_test_table"
    by (simp add: example_test_run)
  have mem: "(0, example_moved_row) \<in> set example_test_table"
    by (simp add: example_test_table_def)
  from mask_path_empty_iff_normal_test [OF run mem] run mem show ?thesis
    by (simp add: example_moved_row_def)
qed

subsection \<open>Determinism of the reassignment\<close>

text \<open>
  C6. \<^verbatim>\<open>split_normal_images_in_train_set\<close> is deterministic: two calls with the
  same table, split ratio and seed return the same table (and leave the
  generator in the same state), whatever state the global generator was in
  when each call began. The selection cannot differ, because line 69 reseeds
  the generator before line 75 samples.
\<close>

theorem split_normal_images_in_train_set_deterministic:
  "split_normal_images_in_train_set r g1 samples split_ratio seed
   = split_normal_images_in_train_set r g2 samples split_ratio seed"
  by (simp add: split_normal_images_in_train_set_def)

subsection \<open>Rows and labels of the scanned table\<close>


lemma rows_DataFrame [simp]: "map snd (DataFrame rows) = rows"
  by (simp add: DataFrame_def)

lemma labels_DataFrame [simp]: "map fst (DataFrame rows) = [0..<length rows]"
  by (simp add: DataFrame_def)

lemma rows_reset_index [simp]: "map snd (reset_index samples) = map snd samples"
  by (simp add: reset_index_def)

lemma split_scan_row [simp]: "split (scan_row p e) = scanned_split e"
  by (cases e) (simp add: scan_row_def scanned_split_def)

lemma label_scan_row [simp]: "label (scan_row p e) = scanned_label e"
  by (cases e) (simp add: scan_row_def scanned_label_def)




subsection \<open>Counting rows of a table with distinct labels\<close>













subsection \<open>Counting through the steps of the construction\<close>










lemma is_normal_test_eq: "(\<lambda>row. split row = ''test'' \<and> label row = ''good'') = is_normal_test"
  by (auto simp: is_normal_test_def fun_eq_iff)

lemma is_normal_test_finish: "is_normal_test (add_label_index (clear_mask row)) = is_normal_test row"
  by (simp add: is_normal_test_def)

lemma label_index_finish:
  "label_index (add_label_index (clear_mask row)) = 0 \<longleftrightarrow> label row = ''good''"
  by (simp add: label_index_add)





subsection \<open>How many rows the reassignment moves\<close>








subsection \<open>A normal row in the test split\<close>




subsection \<open>The error of an empty scan, and empty tables\<close>













section \<open>Properties of the sample accessor\<close>

lemma series_get_valid:
  "0 \<le> index \<Longrightarrow> map_of samples (nat index) = Some row \<Longrightarrow> series_get samples index = Inr row"
  by (simp add: series_get_def)

text \<open>
  C9, as amended. For every valid row index the accessor returns a mapping
  with exactly the key \<^verbatim>\<open>image\<close> when the split of the dataset is \<^verbatim>\<open>train\<close>;
  with exactly the keys \<^verbatim>\<open>image\<close>, \<^verbatim>\<open>image_path\<close> and \<^verbatim>\<open>label\<close> when the split
  is \<^verbatim>\<open>test\<close> and the task is \<^verbatim>\<open>classification\<close>; and with exactly the keys
  \<^verbatim>\<open>image_path\<close>, \<^verbatim>\<open>label\<close>, \<^verbatim>\<open>mask_path\<close>, \<^verbatim>\<open>image\<close> and \<^verbatim>\<open>mask\<close> when the split
  is \<^verbatim>\<open>test\<close> and the task is \<^verbatim>\<open>segmentation\<close>, provided the mask file of an
  anomalous row can be read. The keys are listed in insertion order, as the
  docstring of the class prints them.
\<close>

theorem getitem_keys:
  assumes "0 \<le> index" and "map_of (self_samples self) (nat index) = Some row"
  shows "(self_split self = ''train'' \<longrightarrow>
            item_keys (getitem io self index) = Inr [''image''])
       \<and> (self_split self = ''test'' \<and> self_task self = ''classification'' \<longrightarrow>
            item_keys (getitem io self index) = Inr [''image'', ''image_path'', ''label''])
       \<and> (self_split self = ''test'' \<and> self_task self = ''segmentation''
            \<and> (label_index row = 0 \<or> cv2_imread io (mask_path row) \<noteq> None) \<longrightarrow>
            item_keys (getitem io self index)
              = Inr [''image_path'', ''label'', ''mask_path'', ''image'', ''mask''])"
proof (intro conjI impI)
  note s = series_get_valid [OF assms]
  show "item_keys (getitem io self index) = Inr [''image'']" if "self_split self = ''train''"
    using that by (simp add: getitem_def s item_keys_def)
  show "item_keys (getitem io self index) = Inr [''image'', ''image_path'', ''label'']"
    if "self_split self = ''test'' \<and> self_task self = ''classification''"
    using that by (simp add: getitem_def s item_keys_def)
  show "item_keys (getitem io self index)
              = Inr [''image_path'', ''label'', ''mask_path'', ''image'', ''mask'']"
    if "self_split self = ''test'' \<and> self_task self = ''segmentation''
            \<and> (label_index row = 0 \<or> cv2_imread io (mask_path row) \<noteq> None)"
    using that by (auto simp: getitem_def s item_keys_def Let_def split: prod.splits)
qed

theorem getitem_keys_witness:
  "item_keys (getitem example_io example_train_dataset 0) = Inr [''image'']
   \<and> item_keys (getitem example_io example_classification_dataset 0)
       = Inr [''image'', ''image_path'', ''label'']
   \<and> item_keys (getitem example_io example_test_dataset 1)
       = Inr [''image_path'', ''label'', ''mask_path'', ''image'', ''mask'']"
proof -
  have i0: "(0 :: int) \<le> 0" and i1: "(0 :: int) \<le> 1" by simp_all
  have r0: "map_of (self_samples example_train_dataset) (nat 0) = Some example_train_row"
    by (simp add: example_train_dataset_def example_train_table_def)
  have r1: "map_of (self_samples example_classification_dataset) (nat 0) = Some example_moved_row"
    by (simp add: example_classification_dataset_def example_test_table_def)
  have r2: "map_of (self_samples example_test_dataset) (nat 1) = Some example_anomalous_row"
    by (simp add: example_test_dataset_def example_test_table_def)
  from getitem_keys [OF i0 r0, of example_io]
  have "item_keys (getitem example_io example_train_dataset 0) = Inr [''image'']"
    by (simp add: example_train_dataset_def)
  moreover from getitem_keys [OF i0 r1, of example_io]
  have "item_keys (getitem example_io example_classification_dataset 0)
       = Inr [''image'', ''image_path'', ''label'']"
    by (simp add: example_classification_dataset_def)
  moreover from getitem_keys [OF i1 r2, of example_io]
  have "item_keys (getitem example_io example_test_dataset 1)
       = Inr [''image_path'', ''label'', ''mask_path'', ''image'', ''mask'']"
    by (simp add: example_test_dataset_def example_io_def example_anomalous_row_def)
  ultimately show ?thesis by blast
qed

text \<open>
  The claim as stated, the single key \<^verbatim>\<open>image\<close> whenever the task is
  \<^verbatim>\<open>classification\<close>, fails on a test dataset: lines 284 to 288 add
  \<^verbatim>\<open>image_path\<close> and \<^verbatim>\<open>label\<close> for every test row, whatever the task.
\<close>

theorem getitem_classification_test_keys:
  "self_task example_classification_dataset = ''classification''
   \<and> item_keys (getitem example_io example_classification_dataset 0)
       = Inr [''image'', ''image_path'', ''label'']
   \<and> set [''image'', ''image_path'', ''label''] \<noteq> {''image''}"
  by (simp add: getitem_def series_get_def item_keys_def example_classification_dataset_def
        example_test_table_def example_io_def)

section \<open>Properties of callback assembly\<close>

subsection \<open>Normalization hooks and errors through the steps\<close>

lemma base_hooks: "filter is_normalization_hook (base_callbacks c) = []"
  by (simp add: base_callbacks_def Let_def split: option.splits)

lemma visualizer_hooks:
  "visualizer_callbacks c callbacks = Inr callbacks' \<Longrightarrow>
   filter is_normalization_hook callbacks' = filter is_normalization_hook callbacks"
  by (auto simp: visualizer_callbacks_def bind_error_def attr_def Let_def
           split: option.splits if_splits sum.splits)

lemma visualizer_error:
  "visualizer_callbacks c callbacks = Inl e \<Longrightarrow> \<exists>key. e = ConfigAttributeError key"
  by (auto simp: visualizer_callbacks_def bind_error_def attr_def Let_def
           split: option.splits if_splits sum.splits)

lemma migrate_error:
  "snd (migrate_log_images_to c) = Inl e \<Longrightarrow> e = ConfigAttributeError ''log_images_to''"
  by (auto simp: migrate_log_images_to_def Let_def split: option.splits)

lemma add_visualizer_hooks:
  "snd (add_visualizer_callback callbacks c) = Inr callbacks' \<Longrightarrow>
   filter is_normalization_hook callbacks' = filter is_normalization_hook callbacks"
  by (auto simp: add_visualizer_callback_def split: if_splits prod.splits sum.splits
           dest: visualizer_hooks)

lemma add_visualizer_error:
  "snd (add_visualizer_callback callbacks c) = Inl e \<Longrightarrow> \<exists>key. e = ConfigAttributeError key"
proof (cases "log_images_to_given c")
  case False
  assume "snd (add_visualizer_callback callbacks c) = Inl e"
  with False show ?thesis by (auto simp: add_visualizer_callback_def dest: visualizer_error)
next
  case True
  assume a: "snd (add_visualizer_callback callbacks c) = Inl e"
  obtain c' res where m: "migrate_log_images_to c = (c', res)" by (cases "migrate_log_images_to c")
  show ?thesis
  proof (cases res)
    case (Inl e')
    with a True m have "e = e'" by (simp add: add_visualizer_callback_def)
    with migrate_error [of c e'] m Inl show ?thesis by simp
  next
    case (Inr u)
    with a True m have "visualizer_callbacks c' callbacks = Inl e"
      by (simp add: add_visualizer_callback_def)
    then show ?thesis by (rule visualizer_error)
  qed
qed

lemma optimization_hooks:
  "filter is_normalization_hook (optimization_callbacks c callbacks)
   = filter is_normalization_hook callbacks"
  by (simp add: optimization_callbacks_def Let_def split: option.splits)

lemma graph_hooks:
  "filter is_normalization_hook (graph_callbacks c callbacks)
   = filter is_normalization_hook callbacks"
  by (simp add: graph_callbacks_def)

text \<open>
  How \<^verbatim>\<open>get_callbacks\<close> ends, by the outcome of the normalization step: its
  exception is the result; after it succeeds only an absent key can fail, and
  the later steps add no normalization hook.
\<close>

lemma get_callbacks_normalization_error:
  "normalization_callbacks c (base_callbacks c) = Inl e \<Longrightarrow> get_callbacks c = (c, Inl e)"
  by (simp add: get_callbacks_def)

lemma get_callbacks_after_normalization:
  assumes "normalization_callbacks c (base_callbacks c) = Inr callbacks"
  shows "(\<forall>e. snd (get_callbacks c) = Inl e \<longrightarrow> (\<exists>key. e = ConfigAttributeError key))
       \<and> (\<forall>callbacks'. snd (get_callbacks c) = Inr callbacks' \<longrightarrow>
             filter is_normalization_hook callbacks' = filter is_normalization_hook callbacks)
       \<and> fst (get_callbacks c) = fst (add_visualizer_callback callbacks c)"
proof -
  obtain c' res where a: "add_visualizer_callback callbacks c = (c', res)"
    by (cases "add_visualizer_callback callbacks c")
  show ?thesis
  proof (cases res)
    case (Inl e)
    with a assms have "get_callbacks c = (c', Inl e)" by (simp add: get_callbacks_def)
    moreover from a Inl add_visualizer_error [of callbacks c e] have "\<exists>key. e = ConfigAttributeError key"
      by simp
    ultimately show ?thesis using a by auto
  next
    case (Inr callbacks')
    with a assms have
      "get_callbacks c = (c', Inr (graph_callbacks c' (optimization_callbacks c' callbacks')))"
      by (simp add: get_callbacks_def)
    moreover from a Inr add_visualizer_hooks [of callbacks c callbacks']
    have "filter is_normalization_hook callbacks' = filter is_normalization_hook callbacks" by simp
    ultimately show ?thesis using a by (simp add: graph_hooks optimization_hooks)
  qed
qed

subsection \<open>CDF score normalization\<close>

text \<open>
  The two refusals of lines 99 to 105, and the hook when the optimization
  section is there and NNCF is not applied.
\<close>

lemma cdf_unsupported_model:
  assumes "model_normalization_method (model c) = Some ''cdf''"
      and "model_name (model c) \<notin> {''padim'', ''stfpm''}"
  shows "get_callbacks c = (c, Inl (NotImplementedError
           ''Score Normalization is currently supported for PADIM and STFPM only.''))"
  using assms by (intro get_callbacks_normalization_error) (simp add: normalization_callbacks_def)

lemma cdf_with_nncf:
  assumes "model_normalization_method (model c) = Some ''cdf''"
      and "model_name (model c) \<in> {''padim'', ''stfpm''}"
      and "optimization c = Some opt" and "optimization_nncf opt = Some n" and "nncf_apply n"
  shows "get_callbacks c = (c, Inl (NotImplementedError
           ''CDF Score Normalization is currently not compatible with NNCF.''))"
  using assms
  by (intro get_callbacks_normalization_error)
     (auto simp: normalization_callbacks_def bind_error_def attr_def)

lemma cdf_hook_added:
  assumes "model_normalization_method (model c) = Some ''cdf''"
      and "model_name (model c) \<in> {''padim'', ''stfpm''}"
      and "optimization c = Some opt"
      and "optimization_nncf opt = None \<or> (\<exists>n. optimization_nncf opt = Some n \<and> \<not> nncf_apply n)"
      and "snd (get_callbacks c) = Inr callbacks"
  shows "CdfNormalizationCallback \<in> set callbacks"
proof -
  from assms(1-4) have
    "normalization_callbacks c (base_callbacks c) = Inr (base_callbacks c @ [CdfNormalizationCallback])"
    by (auto simp: normalization_callbacks_def bind_error_def attr_def)
  from get_callbacks_after_normalization [OF this] assms(5)
  have "filter is_normalization_hook callbacks
        = filter is_normalization_hook (base_callbacks c @ [CdfNormalizationCallback])" by blast
  then have "filter is_normalization_hook callbacks = [CdfNormalizationCallback]"
    by (simp add: base_hooks)
  then have "CdfNormalizationCallback \<in> set (filter is_normalization_hook callbacks)" by simp
  then show ?thesis by simp
qed

lemma cdf_without_optimization:
  assumes "model_normalization_method (model c) = Some ''cdf''"
      and "model_name (model c) \<in> {''padim'', ''stfpm''}"
      and "optimization c = None"
  shows "get_callbacks c = (c, Inl (ConfigAttributeError ''optimization''))"
  using assms
  by (intro get_callbacks_normalization_error)
     (auto simp: normalization_callbacks_def bind_error_def attr_def)

lemmas callbacks_defs =
  get_callbacks_def normalization_callbacks_def base_callbacks_def add_visualizer_callback_def
  visualizer_callbacks_def migrate_log_images_to_def log_images_to_given_def
  present_nonempty_def default_visualization_def set_save_images_def set_log_images_def
  optimization_callbacks_def graph_callbacks_def bind_error_def attr_def os_path_join_def Let_def

lemma example_config_run:
  "get_callbacks example_config
   = (example_config,
      Inr [ModelCheckpoint ''results/weights'' ''model'' None ''max'' False, TimerCallback,
           MetricsConfigurationCallback True None None (Some [''AUROC'']) None,
           CdfNormalizationCallback])"
  by (simp add: callbacks_defs example_config_def)

text \<open>
  C7. With \<^verbatim>\<open>normalization_method == "cdf"\<close>, \<^verbatim>\<open>get_callbacks\<close> raises the
  not-implemented error for a model other than \<^verbatim>\<open>padim\<close> and \<^verbatim>\<open>stfpm\<close>
  (\<open>cdf_unsupported_model\<close>) and for these models when the NNCF apply flag is
  set (\<open>cdf_with_nncf\<close>), and the list it returns holds the CDF hook when the
  \<^verbatim>\<open>optimization\<close> section is present without an applied NNCF
  (\<open>cdf_hook_added\<close>, \<open>example_config_run\<close>). It does not succeed for PaDiM
  without NNCF when the configuration has no \<^verbatim>\<open>optimization\<close> section at
  all, a configuration that line 113 provides for: line 101 reads
  \<^verbatim>\<open>config.optimization\<close> without the presence test and raises.
\<close>

theorem cdf_without_optimization_raises:
  "optimization cdf_without_optimization_config = None
   \<and> get_callbacks cdf_without_optimization_config
       = (cdf_without_optimization_config, Inl (ConfigAttributeError ''optimization''))"
  by (simp add: cdf_without_optimization cdf_without_optimization_config_def example_config_def)

subsection \<open>Unrecognized normalization method\<close>






subsection \<open>The configuration after callback assembly\<close>

lemma add_visualizer_frame:
  "\<not> log_images_to_given c \<Longrightarrow> fst (add_visualizer_callback callbacks c) = c"
  by (simp add: add_visualizer_callback_def)

lemma get_callbacks_frame:
  assumes "\<not> log_images_to_given c"
  shows "fst (get_callbacks c) = c"
proof (cases "normalization_callbacks c (base_callbacks c)")
  case (Inl e)
  then show ?thesis by (simp add: get_callbacks_normalization_error)
next
  case (Inr callbacks)
  from get_callbacks_after_normalization [OF this] add_visualizer_frame [OF assms]
  show ?thesis by simp
qed

lemma migrate_project_key:
  assumes "project_log_images_to (project c) = Some targets"
  shows "\<exists>v. visualization (fst (migrate_log_images_to c)) = Some v
           \<and> snd (migrate_log_images_to c) = Inr ()
           \<and> (''local'' \<in> set targets \<longrightarrow> visualization_save_images v)
           \<and> (''local'' \<notin> set targets \<or> length targets > 1 \<longrightarrow> visualization_log_images v)"
  using assms
  by (cases "visualization c")
     (auto simp: migrate_log_images_to_def set_save_images_def set_log_images_def Let_def)

lemma add_visualizer_fst:
  "log_images_to_given c \<Longrightarrow>
   fst (add_visualizer_callback callbacks c) = fst (migrate_log_images_to c)"
  by (cases "migrate_log_images_to c") (auto simp: add_visualizer_callback_def split: sum.splits)

lemma get_callbacks_migrates_project_key:
  assumes "project_log_images_to (project c) = Some targets" and "targets \<noteq> []"
      and "normalization_callbacks c (base_callbacks c) = Inr callbacks"
  shows "\<exists>v. visualization (fst (get_callbacks c)) = Some v
           \<and> (''local'' \<in> set targets \<longrightarrow> visualization_save_images v)
           \<and> (''local'' \<notin> set targets \<or> length targets > 1 \<longrightarrow> visualization_log_images v)
           \<and> (visualization_save_images v \<or> visualization_log_images v)"
proof -
  from assms(1,2) have "log_images_to_given c"
    by (simp add: log_images_to_given_def present_nonempty_def)
  with get_callbacks_after_normalization [OF assms(3)]
  have "fst (get_callbacks c) = fst (migrate_log_images_to c)" by (simp add: add_visualizer_fst)
  with migrate_project_key [OF assms(1)] show ?thesis by auto
qed

text \<open>
  C10. Callback assembly leaves the configuration unchanged when the
  deprecated \<^verbatim>\<open>log_images_to\<close> key is absent or empty under both \<^verbatim>\<open>project\<close>
  and \<^verbatim>\<open>logging\<close> (\<open>get_callbacks_frame\<close>), and when the key is given under
  \<^verbatim>\<open>project\<close> it creates the \<^verbatim>\<open>visualization\<close> section if absent and sets
  \<^verbatim>\<open>save_images\<close> or \<^verbatim>\<open>log_images\<close> (\<open>get_callbacks_migrates_project_key\<close>). When
  the key is given under \<^verbatim>\<open>logging\<close> only, which the condition of lines 158
  and 159 provides for, the section is created with both flags false and
  line 167 then reads \<^verbatim>\<open>config.project.log_images_to\<close> and raises: neither
  flag is set.
\<close>

theorem log_images_to_under_logging_raises:
  "log_images_to_given logging_log_images_to_config
   \<and> get_callbacks logging_log_images_to_config
       = (logging_log_images_to_config\<lparr>visualization := Some default_visualization\<rparr>,
          Inl (ConfigAttributeError ''log_images_to''))
   \<and> \<not> visualization_save_images default_visualization
   \<and> \<not> visualization_log_images default_visualization"
  by (simp add: callbacks_defs logging_log_images_to_config_def example_config_def)

end
